theory Spec2Isabelle
  imports Main "HOL-Library.Word"
begin

section \<open>The code-execution tool of src/lib/tools/analyze.ts\<close>

subsection \<open>JavaScript values\<close>

text \<open>
  A JavaScript string is a sequence of UTF-16 code units. Literals of the source are
  ASCII; \<open>js\<close> turns an ASCII literal into its code units.
\<close>

type_synonym js_string = "16 word list"

definition js :: "string \<Rightarrow> js_string" where
  "js s = map (\<lambda>c. word_of_nat (of_char c)) s"

text \<open>
  The code units that \<open>String.prototype.trim\<close>, \<open>trimStart\<close> and \<open>trimEnd\<close> remove:
  ECMAScript's WhiteSpace (TAB, VT, FF, ZWNBSP and the space separators of Unicode)
  and LineTerminator (LF, CR, LS, PS). All of them are single code units.
\<close>

definition is_white_space :: "16 word \<Rightarrow> bool" where
  "is_white_space c \<longleftrightarrow>
     c = 0x0009 \<or> c = 0x000A \<or> c = 0x000B \<or> c = 0x000C \<or> c = 0x000D \<or>
     c = 0x0020 \<or> c = 0x00A0 \<or> c = 0x1680 \<or> (0x2000 \<le> c \<and> c \<le> 0x200A) \<or>
     c = 0x2028 \<or> c = 0x2029 \<or> c = 0x202F \<or> c = 0x205F \<or> c = 0x3000 \<or>
     c = 0xFEFF"

definition trimStart :: "js_string \<Rightarrow> js_string" where
  "trimStart s = dropWhile is_white_space s"

definition trimEnd :: "js_string \<Rightarrow> js_string" where
  "trimEnd s = rev (dropWhile is_white_space (rev s))"

definition trim :: "js_string \<Rightarrow> js_string" where
  "trim s = trimEnd (trimStart s)"

text \<open>
  The decimal digits of a natural number, most significant first, and the string a
  template literal produces for an integer-valued number. A JavaScript number is a
  double: an integer of magnitude below \<open>2^53\<close> is held exactly and printed with
  exactly its decimal digits, and \<open>number_to_string\<close> is that conversion. Above
  \<open>2^53\<close> JavaScript prints the shortest digits that read back as the same double,
  which this function does not model; the schema of the tool admits the integers from
  1 to 30 only, and every statement below that fixes the printed digits keeps to them.
\<close>

fun decimal :: "nat \<Rightarrow> js_string" where
  "decimal n =
     (if n < 10 then [word_of_nat (48 + n)]
      else decimal (n div 10) @ [word_of_nat (48 + n mod 10)])"

definition number_to_string :: "int \<Rightarrow> js_string" where
  "number_to_string n =
     (if n < 0 then js ''-'' @ decimal (nat (- n)) else decimal (nat n))"

text \<open>The values stored in the fields of a returned object literal.\<close>

datatype js_value =
    JBool bool
  | JString js_string
  | JNumber int
  | JUndefined

text \<open>
  The object returned by \<open>execute\<close>: the fields of the object literal in the order they
  are written. A field is present exactly when \<open>map_of\<close> finds it.
\<close>

type_synonym outcome = "(string \<times> js_value) list"

text \<open>
  An \<open>Error\<close> object as the code reads it: \<open>err.code\<close>, \<open>err.message\<close> (either may be
  \<open>undefined\<close> on a value typed \<open>any\<close>) and the result of \<open>String(err)\<close>. A thrown
  value is an \<open>Error\<close> instance or anything else, of which only \<open>String(error)\<close> is
  read; the conversion is taken to succeed, as it does for every value Node.js throws.
\<close>

record js_error =
  err_code :: "js_string option"
  err_message :: "js_string option"
  err_string :: js_string

datatype thrown = ThrownError js_error | ThrownValue js_string

text \<open>The nullish coalescing operator \<open>a ?? b\<close>.\<close>

definition nullish :: "'a option \<Rightarrow> 'a \<Rightarrow> 'a" where
  "nullish a b = (case a of None \<Rightarrow> b | Some v \<Rightarrow> v)"

subsection \<open>The process supervisor\<close>

text \<open>
  \<open>child_process.spawnSync\<close> is a library call. Its options and the fields of its
  result that the code reads are records; \<open>status\<close>, \<open>signal\<close>, \<open>stdout\<close> and \<open>stderr\<close>
  are \<open>null\<close> when there is no value, and \<open>error\<close> is absent when the child ran.
\<close>

record spawn_options =
  input :: js_string
  timeout :: int
  encoding :: string
  maxBuffer :: int

record spawn_call =
  command :: js_string
  args :: "js_string list"
  options :: spawn_options

record spawn_result =
  error :: "js_error option"
  status :: "int option"
  signal :: "js_string option"
  stdout :: "js_string option"
  stderr :: "js_string option"

text \<open>
  The supervisor is a parameter of the model: for a call it either throws (\<open>Inl\<close>) or
  returns a result (\<open>Inr\<close>), and it takes some milliseconds of wall-clock time. The
  host state holds the clock that \<open>Date.now()\<close> reads and a log of the processes
  that were requested, with what the supervisor answered.
\<close>

type_synonym supervisor = "spawn_call \<Rightarrow> (thrown + spawn_result) \<times> int"

record host =
  now :: int
  spawn_log :: "(spawn_call \<times> (thrown + spawn_result)) list"

definition Date_now :: "host \<Rightarrow> int" where
  "Date_now h = now h"

definition spawnSync ::
  "supervisor \<Rightarrow> js_string \<Rightarrow> js_string list \<Rightarrow> spawn_options \<Rightarrow> host
     \<Rightarrow> (thrown + spawn_result) \<times> host" where
  "spawnSync sv cmd argv opts h =
     (let c = \<lparr>command = cmd, args = argv, options = opts\<rparr>;
          (answer, elapsed) = sv c
      in (answer, h\<lparr>now := now h + elapsed, spawn_log := spawn_log h @ [(c, answer)]\<rparr>))"

subsection \<open>analyzeTool.execute\<close>

text \<open>
  The body of the \<open>try\<close> block (lines 85 to 157); \<open>startTime\<close> is the variable of
  the enclosing scope. The only statement of the block that can throw is the call of
  \<open>spawnSync\<close> (it validates its arguments); then the block ends with \<open>Inl\<close> of the
  thrown value. A signal name is truthy when it is a string that is not empty.
\<close>

definition execute_try ::
  "supervisor \<Rightarrow> js_string \<Rightarrow> int \<Rightarrow> int \<Rightarrow> host \<Rightarrow> (thrown + outcome) \<times> host" where
  "execute_try sv code timeout_seconds startTime h =
     (case spawnSync sv (js ''python3'') [js ''-c'', code]
             \<lparr>input = code, timeout = timeout_seconds * 1000, encoding = ''utf-8'',
              maxBuffer = 1024 * 1024\<rparr> h of
        (Inl exn, h') \<Rightarrow> (Inl exn, h')
      | (Inr result, h') \<Rightarrow>
          (let executionTime = Date_now h' - startTime in
           case error result of
             Some err \<Rightarrow>
               if err_code err = Some (js ''ENOENT'') then
                 (Inr [(''success'', JBool False),
                       (''error'', JString (js ''Python 3 is not installed or not found in PATH'')),
                       (''stdout'', JString (nullish (stdout result) [])),
                       (''stderr'', JString (nullish (stderr result) (js ''python3 not found''))),
                       (''exit_code'', JNumber (- 1)),
                       (''execution_time_ms'', JNumber executionTime),
                       (''help'', JString (js ''Install Python from https://www.python.org/downloads/''))],
                  h')
               else if err_code err = Some (js ''ETIMEDOUT'') then
                 (Inr [(''success'', JBool False),
                       (''error'', JString (js ''Execution timed out after '' @
                                            number_to_string timeout_seconds @ js '' seconds'')),
                       (''stdout'', JString (nullish (stdout result) [])),
                       (''stderr'', JString (nullish (stderr result) [])),
                       (''exit_code'', JNumber (- 1)),
                       (''execution_time_ms'', JNumber executionTime)],
                  h')
               else
                 (Inr [(''success'', JBool False),
                       (''error'', JString (js ''Failed to start or run Python process'')),
                       (''stdout'', JString (nullish (stdout result) [])),
                       (''stderr'', JString (nullish (stderr result)
                                               (nullish (err_message err) (err_string err)))),
                       (''exit_code'', JNumber (- 1)),
                       (''execution_time_ms'', JNumber executionTime)],
                  h')
           | None \<Rightarrow>
               (let exitCode =
                      (case status result of
                         Some n \<Rightarrow> n
                       | None \<Rightarrow>
                           (if signal result \<noteq> None \<and> signal result \<noteq> Some [] then - 1 else 0));
                    out = nullish (stdout result) [];
                    err = nullish (stderr result) []
                in if exitCode = 0 then
                     (Inr [(''success'', JBool True),
                           (''stdout'', JString (trimEnd out)),
                           (''stderr'', JString (trimEnd err)),
                           (''exit_code'', JNumber 0),
                           (''execution_time_ms'', JNumber executionTime)],
                      h')
                   else
                     (Inr [(''success'', JBool False),
                           (''error'', JString (js ''Python execution failed'')),
                           (''stdout'', JString (trimEnd out)),
                           (''stderr'', JString (trimEnd err)),
                           (''exit_code'', JNumber exitCode),
                           (''execution_time_ms'', JNumber executionTime)],
                      h'))))"

text \<open>
  The whole of \<open>execute\<close>: the guard on the code (lines 72 to 80), the start of the
  clock, the \<open>try\<close> block and the \<open>catch\<close> clause (lines 158 to 170). The result is a sum
  so that an exception leaving \<open>execute\<close> would be \<open>Inl\<close>.
\<close>

definition execute ::
  "supervisor \<Rightarrow> js_string \<Rightarrow> int \<Rightarrow> host \<Rightarrow> (thrown + outcome) \<times> host" where
  "execute sv code timeout_seconds h =
     (if code = [] \<or> length (trim code) = 0 then
        (Inr [(''success'', JBool False),
              (''error'', JString (js ''No code provided'')),
              (''stdout'', JString []),
              (''stderr'', JString []),
              (''exit_code'', JNumber (- 1))],
         h)
      else
        (let startTime = Date_now h in
         case execute_try sv code timeout_seconds startTime h of
           (Inr returned, h') \<Rightarrow> (Inr returned, h')
         | (Inl exn, h') \<Rightarrow>
             (let executionTime = Date_now h' - startTime in
              (Inr [(''success'', JBool False),
                    (''error'', JString (js ''Unexpected error during code execution'')),
                    (''details'',
                       (case exn of
                          ThrownError e \<Rightarrow>
                            (case err_message e of Some m \<Rightarrow> JString m | None \<Rightarrow> JUndefined)
                        | ThrownValue s \<Rightarrow> JString s)),
                    (''stdout'', JString []),
                    (''stderr'', JString []),
                    (''exit_code'', JNumber (- 1)),
                    (''execution_time_ms'', JNumber executionTime)],
               h'))))"

text \<open>The request that \<open>execute\<close> hands to the supervisor (lines 85 to 90).\<close>

definition python_request :: "js_string \<Rightarrow> int \<Rightarrow> spawn_call" where
  "python_request code timeout_seconds =
     \<lparr>command = js ''python3'', args = [js ''-c'', code],
      options = \<lparr>input = code, timeout = timeout_seconds * 1000, encoding = ''utf-8'',
                 maxBuffer = 1024 * 1024\<rparr>\<rparr>"

text \<open>The host after one request \<open>c\<close> that was answered with \<open>a\<close> in \<open>d\<close> milliseconds.\<close>

definition after_request :: "host \<Rightarrow> spawn_call \<Rightarrow> thrown + spawn_result \<Rightarrow> int \<Rightarrow> host" where
  "after_request h c a d = h\<lparr>now := now h + d, spawn_log := spawn_log h @ [(c, a)]\<rparr>"

subsection \<open>Notions of the specification and example supervisors\<close>

text \<open>
  The supervisor answered that the command was not found: process creation failed
  with the error code \<open>ENOENT\<close>.
\<close>

definition not_found_answer :: "thrown + spawn_result \<Rightarrow> bool" where
  "not_found_answer a =
     (case a of
        Inl exn \<Rightarrow> False
      | Inr r \<Rightarrow> (case error r of None \<Rightarrow> False | Some e \<Rightarrow> err_code e = Some (js ''ENOENT'')))"

text \<open>The number that a string of decimal digits denotes.\<close>

definition digit_value :: "16 word \<Rightarrow> nat" where
  "digit_value c = unat c - 48"

definition decimal_value :: "js_string \<Rightarrow> nat" where
  "decimal_value s = foldl (\<lambda>a c. 10 * a + digit_value c) 0 s"

text \<open>
  A host and some answers of a supervisor, as Node.js gives them: a child that prints
  and exits with 0, one that exits with 1, a missing interpreter, a child killed at the
  timeout, a broken pipe to a child that exited with 0, an overflow of the output
  buffer (the child is killed after the chunk that crossed the cap was stored, so the
  captured output is longer than the cap), and a request that the supervisor refuses
  with an exception.
\<close>

definition host0 :: host where
  "host0 = \<lparr>now = 1700000000000, spawn_log = []\<rparr>"

definition success_result :: spawn_result where
  "success_result =
     \<lparr>error = None, status = Some 0, signal = None,
      stdout = Some (js ''42'' @ [0x000A]), stderr = Some []\<rparr>"

definition sv_success :: supervisor where
  "sv_success c = (Inr success_result, 35)"

definition failure_result :: spawn_result where
  "failure_result =
     \<lparr>error = None, status = Some 1, signal = None,
      stdout = Some [], stderr = Some (js ''ZeroDivisionError: division by zero'' @ [0x000A])\<rparr>"

definition sv_failure :: supervisor where
  "sv_failure c = (Inr failure_result, 41)"

definition enoent_error :: js_error where
  "enoent_error =
     \<lparr>err_code = Some (js ''ENOENT''), err_message = Some (js ''spawnSync python3 ENOENT''),
      err_string = js ''Error: spawnSync python3 ENOENT''\<rparr>"

definition not_found_result :: spawn_result where
  "not_found_result =
     \<lparr>error = Some enoent_error, status = None, signal = None, stdout = None, stderr = None\<rparr>"

definition sv_not_found :: supervisor where
  "sv_not_found c = (Inr not_found_result, 2)"

definition etimedout_error :: js_error where
  "etimedout_error =
     \<lparr>err_code = Some (js ''ETIMEDOUT''), err_message = Some (js ''spawnSync python3 ETIMEDOUT''),
      err_string = js ''Error: spawnSync python3 ETIMEDOUT''\<rparr>"

definition timeout_result :: spawn_result where
  "timeout_result =
     \<lparr>error = Some etimedout_error, status = None, signal = Some (js ''SIGTERM''),
      stdout = Some (js ''partial'' @ [0x000A]), stderr = Some []\<rparr>"

definition sv_timeout :: supervisor where
  "sv_timeout c = (Inr timeout_result, 10004)"

definition epipe_error :: js_error where
  "epipe_error =
     \<lparr>err_code = Some (js ''EPIPE''), err_message = Some (js ''spawnSync python3 EPIPE''),
      err_string = js ''Error: spawnSync python3 EPIPE''\<rparr>"

definition broken_pipe_result :: spawn_result where
  "broken_pipe_result =
     \<lparr>error = Some epipe_error, status = Some 0, signal = None,
      stdout = Some (js ''42'' @ [0x000A]), stderr = Some []\<rparr>"

definition sv_broken_pipe :: supervisor where
  "sv_broken_pipe c = (Inr broken_pipe_result, 35)"

definition enobufs_error :: js_error where
  "enobufs_error =
     \<lparr>err_code = Some (js ''ENOBUFS''), err_message = Some (js ''spawnSync python3 ENOBUFS''),
      err_string = js ''Error: spawnSync python3 ENOBUFS''\<rparr>"

definition overflow_result :: spawn_result where
  "overflow_result =
     \<lparr>error = Some enobufs_error, status = None, signal = Some (js ''SIGTERM''),
      stdout = Some (replicate 1059776 0x0061), stderr = Some []\<rparr>"

definition sv_overflow :: supervisor where
  "sv_overflow c = (Inr overflow_result, 120)"

definition invalid_arg_error :: js_error where
  "invalid_arg_error =
     \<lparr>err_code = Some (js ''ERR_INVALID_ARG_VALUE''),
      err_message = Some (js ''The argument args[1] must be a string without null bytes''),
      err_string = js ''TypeError: The argument args[1] must be a string without null bytes''\<rparr>"

definition sv_throws :: supervisor where
  "sv_throws c = (Inl (ThrownError invalid_arg_error), 0)"

section \<open>Properties\<close>

subsection \<open>Strings\<close>

lemma js_eq_iff: "js s = js t \<longleftrightarrow> s = t"
proof -
  have "inj (\<lambda>c::char. (word_of_nat (of_char c) :: 16 word))"
  proof (rule injI)
    fix x y :: char
    assume "(word_of_nat (of_char x) :: 16 word) = word_of_nat (of_char y)"
    then have "unat (word_of_nat (of_char x) :: 16 word) = unat (word_of_nat (of_char y) :: 16 word)"
      by simp
    moreover have "(of_char c :: nat) < 65536" for c
    proof -
      have "(of_char c :: nat) = of_char c mod 256" by simp
      also have "\<dots> < 256" by (rule mod_less_divisor) simp
      finally show ?thesis by linarith
    qed
    ultimately have "(of_char x :: nat) = of_char y"
      by (simp add: unat_of_nat)
    then show "x = y" by simp
  qed
  then show ?thesis
    unfolding js_def by (simp add: inj_map_eq_map)
qed

text \<open>\<open>trim\<close> leaves nothing exactly when every code unit is white space.\<close>

lemma trim_Nil_iff: "trim s = [] \<longleftrightarrow> (\<forall>c \<in> set s. is_white_space c)"
proof
  assume "trim s = []"
  then have all: "\<forall>c \<in> set (dropWhile is_white_space s). is_white_space c"
    by (simp add: trim_def trimEnd_def trimStart_def dropWhile_eq_Nil_conv)
  have "dropWhile is_white_space s = []"
  proof (rule ccontr)
    assume ne: "dropWhile is_white_space s \<noteq> []"
    then have "\<not> is_white_space (hd (dropWhile is_white_space s))"
      by (rule hd_dropWhile)
    moreover have "hd (dropWhile is_white_space s) \<in> set (dropWhile is_white_space s)"
      using ne by simp
    ultimately show False using all by blast
  qed
  then show "\<forall>c \<in> set s. is_white_space c"
    by (simp add: dropWhile_eq_Nil_conv)
next
  assume "\<forall>c \<in> set s. is_white_space c"
  then show "trim s = []"
    by (auto simp: trim_def trimEnd_def trimStart_def dest: set_dropWhileD)
qed

text \<open>
  \<open>trimEnd\<close> removes a suffix of white space, and all of it: what is left is empty or
  ends in a code unit that is not white space.
\<close>

lemma trimEnd_spec:
  "\<exists>ws. s = trimEnd s @ ws \<and> (\<forall>c \<in> set ws. is_white_space c) \<and>
        (trimEnd s = [] \<or> \<not> is_white_space (last (trimEnd s)))"
proof -
  let ?ws = "rev (takeWhile is_white_space (rev s))"
  have "rev (takeWhile is_white_space (rev s) @ dropWhile is_white_space (rev s)) = s"
    by (simp only: takeWhile_dropWhile_id rev_rev_ident)
  then have split: "s = trimEnd s @ ?ws"
    by (simp only: trimEnd_def rev_append)
  have ws: "\<forall>c \<in> set ?ws. is_white_space c"
    by (auto dest: set_takeWhileD)
  have "trimEnd s = [] \<or> \<not> is_white_space (last (trimEnd s))"
  proof (cases "dropWhile is_white_space (rev s) = []")
    case True
    then show ?thesis by (simp add: trimEnd_def)
  next
    case False
    then have "\<not> is_white_space (hd (dropWhile is_white_space (rev s)))"
      by (rule hd_dropWhile)
    with False show ?thesis by (simp add: trimEnd_def last_rev)
  qed
  with split ws show ?thesis by blast
qed

lemma length_trimEnd: "length (trimEnd s) \<le> length s"
  by (simp add: trimEnd_def length_dropWhile_le [of is_white_space "rev s", simplified])

subsection \<open>The request to the supervisor\<close>

lemma spawnSync_python:
  "spawnSync sv (js ''python3'') [js ''-c'', code]
     \<lparr>input = code, timeout = t * 1000, encoding = ''utf-8'', maxBuffer = 1024 * 1024\<rparr> h =
   (fst (sv (python_request code t)),
    after_request h (python_request code t) (fst (sv (python_request code t)))
      (snd (sv (python_request code t))))"
  by (simp add: spawnSync_def python_request_def after_request_def Let_def split: prod.splits)

subsection \<open>Helper facts\<close>

lemma guard_iff: "(code = [] \<or> length (trim code) = 0) \<longleftrightarrow> trim code = []"
  by (auto simp: trim_def trimEnd_def trimStart_def)

declare decimal.simps [simp del]

lemma decimal_value_snoc: "decimal_value (s @ [c]) = 10 * decimal_value s + digit_value c"
  by (simp add: decimal_value_def)

lemma digit_value_digit:
  assumes "n < 10"
  shows "digit_value (word_of_nat (48 + n)) = n"
proof -
  have "unat (word_of_nat (48 + n) :: 16 word) = (48 + n) mod 2 ^ LENGTH(16)"
    by (rule unat_of_nat)
  also have "\<dots> = 48 + n" using assms by simp
  finally show ?thesis by (simp only: digit_value_def add_diff_cancel_left')
qed

lemma decimal_value_decimal: "decimal_value (decimal n) = n"
proof (induction n rule: decimal.induct)
  case (1 n)
  show ?case
  proof (cases "n < 10")
    case True
    then have "decimal n = [word_of_nat (48 + n)]"
      by (subst decimal.simps) simp
    moreover have "decimal_value [c] = digit_value c" for c
      by (simp add: decimal_value_def)
    ultimately show ?thesis
      using True by (simp only: digit_value_digit)
  next
    case False
    then have unfold: "decimal n = decimal (n div 10) @ [word_of_nat (48 + n mod 10)]"
      by (subst decimal.simps) simp
    have "n mod 10 < 10" by simp
    then have d: "digit_value (word_of_nat (48 + n mod 10)) = n mod 10"
      by (rule digit_value_digit)
    from False "1.IH" have "decimal_value (decimal (n div 10)) = n div 10" by simp
    with d show ?thesis
      by (simp only: unfold decimal_value_snoc) simp
  qed
qed

lemma nonblank_example: "trim (js ''print(42)'') \<noteq> []"
  by (simp add: trim_Nil_iff js_def is_white_space_def)

lemma trimEnd_example: "trimEnd (js ''42'' @ [0x000A]) = js ''42''"
  by (simp add: trimEnd_def js_def is_white_space_def)

lemma number_to_string_10: "number_to_string 10 = js ''10''"
  by (simp add: number_to_string_def js_def decimal.simps)

lemma execute_try_throws:
  "sv (python_request code t) = (Inl exn, d) \<Longrightarrow>
   execute_try sv code t s h = (Inl exn, after_request h (python_request code t) (Inl exn) d)"
  unfolding execute_try_def spawnSync_python by simp

text \<open>
  A process is requested exactly when the code is not blank, and then exactly once:
  the log of the host grows by the one request of \<open>execute\<close> and its answer.
\<close>

lemma spawn_log_execute:
  "spawn_log (snd (execute sv code t h)) =
     (if trim code = [] then spawn_log h
      else spawn_log h @ [(python_request code t, fst (sv (python_request code t)))])"
proof (cases "trim code = []")
  case True
  then show ?thesis by (simp add: execute_def)
next
  case False
  obtain a d where sv: "sv (python_request code t) = (a, d)"
    by (cases "sv (python_request code t)")
  show ?thesis
    unfolding execute_def guard_iff execute_try_def spawnSync_python
    using False sv
    by (cases a)
       (auto simp: Date_now_def Let_def after_request_def split: option.splits)
qed

subsection \<open>The outcome of a call\<close>

text \<open>
  Claim C1. For every supervisor, code string, timeout and host state, \<open>execute\<close>
  returns an outcome object and no exception leaves it: a supervisor that throws is one
  of the supervisors quantified over, and the \<open>catch\<close> clause turns what it throws
  into an outcome.
\<close>

theorem execute_never_throws: "\<exists>out. fst (execute sv code t h) = Inr out"
  by (auto simp: execute_def Let_def split: prod.splits sum.splits)

text \<open>
  The same at a supervisor that refuses the request with an exception.
\<close>

theorem execute_never_throws_witness:
  "\<exists>out. fst (execute sv_throws (js ''print(42)'') 10 host0) = Inr out"
  by (rule execute_never_throws)

text \<open>
  Claim C2. For every code string that is empty or holds white space only, the
  outcome is the rejection \<open>No code provided\<close> with \<open>success = false\<close>, and the host
  state is unchanged: nothing was added to the log of requested processes.
\<close>

theorem blank_code_rejected:
  assumes "\<forall>c \<in> set code. is_white_space c"
  shows "execute sv code t h =
     (Inr [(''success'', JBool False),
           (''error'', JString (js ''No code provided'')),
           (''stdout'', JString []),
           (''stderr'', JString []),
           (''exit_code'', JNumber (- 1))], h) \<and>
     spawn_log (snd (execute sv code t h)) = spawn_log h"
proof -
  from assms have "trim code = []" by (simp only: trim_Nil_iff)
  then show ?thesis by (simp add: execute_def)
qed

theorem blank_code_rejected_witness:
  "list_all is_white_space (js ''  '') \<and>
   execute sv_success (js ''  '') 10 host0 =
     (Inr [(''success'', JBool False),
           (''error'', JString (js ''No code provided'')),
           (''stdout'', JString []),
           (''stderr'', JString []),
           (''exit_code'', JNumber (- 1))], host0) \<and>
   spawn_log (snd (execute sv_success (js ''  '') 10 host0)) = []"
proof -
  have blank: "\<forall>c \<in> set (js ''  ''). is_white_space c"
    by (simp add: js_def is_white_space_def)
  from blank_code_rejected [OF blank, of sv_success 10 host0] blank
  show ?thesis by (simp add: host0_def list_all_iff)
qed

text \<open>
  Claim C3, as stated, fails: the rejection of blank code returns before the clock is
  started and its object has no field \<open>execution_time_ms\<close>.
\<close>

theorem elapsed_time_counterexample:
  "\<not> isl (fst (execute sv_success (js ''  '') 10 host0)) \<and>
   map_of (projr (fst (execute sv_success (js ''  '') 10 host0))) ''execution_time_ms'' = None"
proof -
  have "trim (js ''  '') = []"
    by (simp add: trim_Nil_iff js_def is_white_space_def)
  then show ?thesis by (simp add: execute_def)
qed

text \<open>
  Claim C3, amended. Every outcome has the fields \<open>success\<close>, \<open>stdout\<close>,
  \<open>stderr\<close> and \<open>exit_code\<close>. When the code is not blank the outcome also has
  \<open>execution_time_ms\<close>, the difference of the clock after and before the call, on
  success and on every kind of failure; when the code is blank the field is absent.
\<close>

theorem elapsed_time_reported:
  "\<exists>out b so se n.
     fst (execute sv code t h) = Inr out \<and>
     map_of out ''success'' = Some (JBool b) \<and>
     map_of out ''stdout'' = Some (JString so) \<and>
     map_of out ''stderr'' = Some (JString se) \<and>
     map_of out ''exit_code'' = Some (JNumber n) \<and>
     map_of out ''execution_time_ms'' =
       (if trim code = [] then None
        else Some (JNumber (now (snd (execute sv code t h)) - now h)))"
proof (cases "trim code = []")
  case True
  then show ?thesis by (auto simp: execute_def intro: exI [of _ False])
next
  case False
  obtain a d where sv: "sv (python_request code t) = (a, d)"
    by (cases "sv (python_request code t)")
  show ?thesis
    unfolding execute_def guard_iff execute_try_def spawnSync_python
    using False sv
    by (cases a)
       (auto simp: Date_now_def Let_def after_request_def split: option.splits)
qed

theorem elapsed_time_reported_witness:
  "\<exists>out. fst (execute sv_failure (js ''print(42)'') 10 host0) = Inr out \<and>
     map_of out ''execution_time_ms'' = Some (JNumber 41)"
proof -
  have elapsed: "now (snd (execute sv_failure (js ''print(42)'') 10 host0)) - now host0 = 41"
    unfolding execute_def guard_iff execute_try_def spawnSync_python
    using nonblank_example
    by (simp add: sv_failure_def failure_result_def Date_now_def Let_def after_request_def)
  from elapsed_time_reported [of sv_failure "js ''print(42)''" 10 host0] nonblank_example elapsed
  show ?thesis by auto
qed

text \<open>
  Claim C4, as stated, fails: the supervisor can report an error together with the
  exit status 0 (a broken pipe while the code is written to the standard input of a
  child that has already exited). The error is tested first, so the outcome is a
  failure with \<open>exit_code = -1\<close> and the output is not trimmed.
\<close>

theorem exit_zero_counterexample:
  "status broken_pipe_result = Some 0 \<and>
   fst (execute sv_broken_pipe (js ''print(42)'') 10 host0) =
     Inr [(''success'', JBool False),
          (''error'', JString (js ''Failed to start or run Python process'')),
          (''stdout'', JString (js ''42'' @ [0x000A])),
          (''stderr'', JString []),
          (''exit_code'', JNumber (- 1)),
          (''execution_time_ms'', JNumber 35)]"
  unfolding execute_def guard_iff execute_try_def spawnSync_python
  using nonblank_example
  by (simp add: sv_broken_pipe_def broken_pipe_result_def epipe_error_def js_eq_iff
        Date_now_def Let_def after_request_def nullish_def)

text \<open>
  Claim C4, amended. When the supervisor reports no error and the child exited with
  status 0, the outcome is the success object: \<open>success = true\<close>, \<open>exit_code = 0\<close>,
  and \<open>stdout\<close> and \<open>stderr\<close> are the captured output without its trailing white space.
\<close>

theorem exit_zero_is_success:
  assumes "trim code \<noteq> []"
    and "sv (python_request code t) = (Inr r, d)"
    and "error r = None"
    and "status r = Some 0"
  shows "execute sv code t h =
     (Inr [(''success'', JBool True),
           (''stdout'', JString (trimEnd (nullish (stdout r) []))),
           (''stderr'', JString (trimEnd (nullish (stderr r) []))),
           (''exit_code'', JNumber 0),
           (''execution_time_ms'', JNumber d)],
      after_request h (python_request code t) (Inr r) d)"
  unfolding execute_def guard_iff execute_try_def spawnSync_python
  using assms by (simp add: Date_now_def Let_def after_request_def)

theorem exit_zero_is_success_witness:
  "trim (js ''print(42)'') \<noteq> [] \<and> error success_result = None \<and>
   status success_result = Some 0 \<and>
   execute sv_success (js ''print(42)'') 10 host0 =
     (Inr [(''success'', JBool True),
           (''stdout'', JString (js ''42'')),
           (''stderr'', JString []),
           (''exit_code'', JNumber 0),
           (''execution_time_ms'', JNumber 35)],
      after_request host0 (python_request (js ''print(42)'') 10) (Inr success_result) 35)"
proof -
  have r: "error success_result = None" "status success_result = Some 0"
    by (simp_all add: success_result_def)
  have sv: "sv_success (python_request (js ''print(42)'') 10) = (Inr success_result, 35)"
    by (simp add: sv_success_def)
  have out: "trimEnd (nullish (stdout success_result) []) = js ''42''"
    "trimEnd (nullish (stderr success_result) []) = []"
    by (simp_all add: success_result_def nullish_def trimEnd_example) (simp add: trimEnd_def)
  from exit_zero_is_success
         [where sv = sv_success and r = success_result and h = host0, OF nonblank_example sv r]
       nonblank_example r out
  show ?thesis by simp
qed

text \<open>
  Claim C5, as stated, fails: a child that is killed at the timeout was terminated by
  a signal, and the supervisor reports the error \<open>ETIMEDOUT\<close> with it. The error is
  tested first, so the outcome is the timeout failure, not \<open>Python execution failed\<close>,
  and its output keeps the trailing white space.
\<close>

theorem nonzero_exit_counterexample:
  "signal timeout_result = Some (js ''SIGTERM'') \<and>
   fst (execute sv_timeout (js ''print(42)'') 10 host0) =
     Inr [(''success'', JBool False),
          (''error'', JString (js ''Execution timed out after 10 seconds'')),
          (''stdout'', JString (js ''partial'' @ [0x000A])),
          (''stderr'', JString []),
          (''exit_code'', JNumber (- 1)),
          (''execution_time_ms'', JNumber 10004)] \<and>
   js ''Execution timed out after 10 seconds'' \<noteq> js ''Python execution failed'' \<and>
   trimEnd (js ''partial'' @ [0x000A]) \<noteq> js ''partial'' @ [0x000A]"
proof -
  have "js ''Execution timed out after '' @ number_to_string 10 @ js '' seconds'' =
        js ''Execution timed out after 10 seconds''"
    by (simp add: number_to_string_10) (simp add: js_def)
  moreover have "trimEnd (js ''partial'' @ [0x000A]) \<noteq> js ''partial'' @ [0x000A]"
    by (simp add: trimEnd_def js_def is_white_space_def)
  ultimately show ?thesis
    unfolding execute_def guard_iff execute_try_def spawnSync_python
    using nonblank_example
    by (simp add: sv_timeout_def timeout_result_def etimedout_error_def js_eq_iff
          Date_now_def Let_def after_request_def nullish_def)
qed

text \<open>
  Claim C5, amended. When the supervisor reports no error and the child exited with a
  status other than 0, or has no status and was terminated by a signal, the outcome is
  the failure \<open>Python execution failed\<close>: \<open>success = false\<close>, \<open>exit_code\<close> is the
  status, or -1 for the signal, and \<open>stdout\<close> and \<open>stderr\<close> are the captured output
  without its trailing white space.
\<close>

theorem nonzero_exit_is_failure:
  assumes "trim code \<noteq> []"
    and "sv (python_request code t) = (Inr r, d)"
    and "error r = None"
    and "(\<exists>n. status r = Some n \<and> n \<noteq> 0) \<or>
         (status r = None \<and> signal r \<noteq> None \<and> signal r \<noteq> Some [])"
  shows "execute sv code t h =
     (Inr [(''success'', JBool False),
           (''error'', JString (js ''Python execution failed'')),
           (''stdout'', JString (trimEnd (nullish (stdout r) []))),
           (''stderr'', JString (trimEnd (nullish (stderr r) []))),
           (''exit_code'', JNumber (case status r of Some n \<Rightarrow> n | None \<Rightarrow> - 1)),
           (''execution_time_ms'', JNumber d)],
      after_request h (python_request code t) (Inr r) d)"
  unfolding execute_def guard_iff execute_try_def spawnSync_python
  using assms by (auto simp: Date_now_def Let_def after_request_def)

theorem nonzero_exit_is_failure_witness:
  "trim (js ''print(42)'') \<noteq> [] \<and> error failure_result = None \<and>
   status failure_result = Some 1 \<and>
   execute sv_failure (js ''print(42)'') 10 host0 =
     (Inr [(''success'', JBool False),
           (''error'', JString (js ''Python execution failed'')),
           (''stdout'', JString []),
           (''stderr'', JString (js ''ZeroDivisionError: division by zero'')),
           (''exit_code'', JNumber 1),
           (''execution_time_ms'', JNumber 41)],
      after_request host0 (python_request (js ''print(42)'') 10) (Inr failure_result) 41)"
proof -
  have r: "error failure_result = None" "status failure_result = Some 1"
    by (simp_all add: failure_result_def)
  then have exit: "(\<exists>n. status failure_result = Some n \<and> n \<noteq> 0) \<or>
      (status failure_result = None \<and> signal failure_result \<noteq> None \<and>
       signal failure_result \<noteq> Some [])"
    by simp
  have sv: "sv_failure (python_request (js ''print(42)'') 10) = (Inr failure_result, 41)"
    by (simp add: sv_failure_def)
  have out: "trimEnd (nullish (stdout failure_result) []) = []"
    "trimEnd (nullish (stderr failure_result) []) = js ''ZeroDivisionError: division by zero''"
    by (simp_all add: failure_result_def nullish_def trimEnd_def js_def is_white_space_def)
  from nonzero_exit_is_failure
         [where sv = sv_failure and r = failure_result and h = host0,
          OF nonblank_example sv r(1) exit]
       nonblank_example r out
  show ?thesis by simp
qed

text \<open>
  Claim C6. A process is requested exactly when the code is not blank. When the
  request fails because the command was not found, whatever the code is, the outcome
  is the failure \<open>Python 3 is not installed or not found in PATH\<close> with the hint in
  the field \<open>help\<close>; and the field \<open>help\<close> is present in no other outcome.
\<close>

theorem interpreter_not_found_hint:
  "\<exists>out. fst (execute sv code t h) = Inr out \<and>
     (map_of out ''help'' \<noteq> None \<longleftrightarrow>
        trim code \<noteq> [] \<and> not_found_answer (fst (sv (python_request code t)))) \<and>
     (trim code \<noteq> [] \<and> not_found_answer (fst (sv (python_request code t))) \<longrightarrow>
        (\<exists>r. fst (sv (python_request code t)) = Inr r \<and>
           out = [(''success'', JBool False),
                  (''error'', JString (js ''Python 3 is not installed or not found in PATH'')),
                  (''stdout'', JString (nullish (stdout r) [])),
                  (''stderr'', JString (nullish (stderr r) (js ''python3 not found''))),
                  (''exit_code'', JNumber (- 1)),
                  (''execution_time_ms'', JNumber (snd (sv (python_request code t)))),
                  (''help'', JString (js ''Install Python from https://www.python.org/downloads/''))]))"
proof (cases "trim code = []")
  case True
  then show ?thesis by (simp add: execute_def)
next
  case False
  obtain a d where sv: "sv (python_request code t) = (a, d)"
    by (cases "sv (python_request code t)")
  show ?thesis
    unfolding execute_def guard_iff execute_try_def spawnSync_python not_found_answer_def
    using False sv
    by (cases a)
       (auto simp: Date_now_def Let_def after_request_def split: option.splits)
qed

theorem interpreter_not_found_hint_witness:
  "trim (js ''print(42)'') \<noteq> [] \<and>
   not_found_answer (fst (sv_not_found (python_request (js ''print(42)'') 10))) \<and>
   fst (execute sv_not_found (js ''print(42)'') 10 host0) =
     Inr [(''success'', JBool False),
          (''error'', JString (js ''Python 3 is not installed or not found in PATH'')),
          (''stdout'', JString []),
          (''stderr'', JString (js ''python3 not found'')),
          (''exit_code'', JNumber (- 1)),
          (''execution_time_ms'', JNumber 2),
          (''help'', JString (js ''Install Python from https://www.python.org/downloads/''))]"
proof -
  have nf: "not_found_answer (fst (sv_not_found (python_request (js ''print(42)'') 10)))"
    by (simp add: not_found_answer_def sv_not_found_def not_found_result_def enoent_error_def)
  from interpreter_not_found_hint [of sv_not_found "js ''print(42)''" 10 host0]
       nonblank_example nf
  show ?thesis
    by (auto simp: sv_not_found_def not_found_result_def nullish_def)
qed

text \<open>
  Claim C7. When the supervisor reports that the timeout expired (the error
  \<open>ETIMEDOUT\<close>), the outcome is the timeout failure, and its message holds the
  decimal digits of \<open>timeout_seconds\<close>: read back as a number they give the value
  that was supplied. The value is one that the schema of the tool admits, an integer
  from 1 to 30.
\<close>

theorem timeout_reports_bound:
  assumes "trim code \<noteq> []"
    and "sv (python_request code t) = (Inr r, d)"
    and "error r = Some e"
    and "err_code e = Some (js ''ETIMEDOUT'')"
    and "1 \<le> t" and "t \<le> 30"
  shows "execute sv code t h =
     (Inr [(''success'', JBool False),
           (''error'', JString (js ''Execution timed out after '' @
                                number_to_string t @ js '' seconds'')),
           (''stdout'', JString (nullish (stdout r) [])),
           (''stderr'', JString (nullish (stderr r) [])),
           (''exit_code'', JNumber (- 1)),
           (''execution_time_ms'', JNumber d)],
      after_request h (python_request code t) (Inr r) d) \<and>
     int (decimal_value (number_to_string t)) = t"
proof -
  have "execute sv code t h =
     (Inr [(''success'', JBool False),
           (''error'', JString (js ''Execution timed out after '' @
                                number_to_string t @ js '' seconds'')),
           (''stdout'', JString (nullish (stdout r) [])),
           (''stderr'', JString (nullish (stderr r) [])),
           (''exit_code'', JNumber (- 1)),
           (''execution_time_ms'', JNumber d)],
      after_request h (python_request code t) (Inr r) d)"
    unfolding execute_def guard_iff execute_try_def spawnSync_python
    using assms(1-4) by (simp add: Date_now_def Let_def after_request_def js_eq_iff)
  moreover from \<open>1 \<le> t\<close> have "int (decimal_value (number_to_string t)) = t"
    by (simp add: number_to_string_def decimal_value_decimal)
  ultimately show ?thesis by simp
qed

theorem timeout_reports_bound_witness:
  "trim (js ''print(42)'') \<noteq> [] \<and> error timeout_result = Some etimedout_error \<and>
   err_code etimedout_error = Some (js ''ETIMEDOUT'') \<and>
   execute sv_timeout (js ''print(42)'') 10 host0 =
     (Inr [(''success'', JBool False),
           (''error'', JString (js ''Execution timed out after 10 seconds'')),
           (''stdout'', JString (js ''partial'' @ [0x000A])),
           (''stderr'', JString []),
           (''exit_code'', JNumber (- 1)),
           (''execution_time_ms'', JNumber 10004)],
      after_request host0 (python_request (js ''print(42)'') 10) (Inr timeout_result) 10004)"
proof -
  have r: "error timeout_result = Some etimedout_error"
    "err_code etimedout_error = Some (js ''ETIMEDOUT'')"
    by (simp_all add: timeout_result_def etimedout_error_def)
  have sv: "sv_timeout (python_request (js ''print(42)'') 10) = (Inr timeout_result, 10004)"
    by (simp add: sv_timeout_def)
  have msg: "js ''Execution timed out after '' @ number_to_string 10 @ js '' seconds'' =
        js ''Execution timed out after 10 seconds''"
    by (simp add: number_to_string_10) (simp add: js_def)
  have out: "nullish (stdout timeout_result) [] = js ''partial'' @ [0x000A]"
    "nullish (stderr timeout_result) [] = []"
    by (simp_all add: timeout_result_def nullish_def)
  have range: "(1::int) \<le> 10" "(10::int) \<le> 30" by simp_all
  from timeout_reports_bound
         [where sv = sv_timeout and r = timeout_result and h = host0 and e = etimedout_error,
          OF nonblank_example sv r range]
       nonblank_example r
  show ?thesis by (simp only: msg out) simp
qed

text \<open>
  Claim C8, as stated, fails: \<open>execute\<close> cuts nothing itself. When the buffer
  overflows the supervisor kills the child and answers with the error \<open>ENOBUFS\<close> and
  with all it had stored, which is more than the cap; the generic error branch returns
  that output whole, so the returned \<open>stdout\<close> is longer than 1 MiB.
\<close>

theorem capped_output_counterexample:
  "fst (execute sv_overflow (js ''print(42)'') 10 host0) =
     Inr [(''success'', JBool False),
          (''error'', JString (js ''Failed to start or run Python process'')),
          (''stdout'', JString (replicate 1059776 0x0061)),
          (''stderr'', JString []),
          (''exit_code'', JNumber (- 1)),
          (''execution_time_ms'', JNumber 120)] \<and>
   1024 * 1024 < length (replicate 1059776 (0x0061 :: 16 word)) + length ([] :: js_string)"
  unfolding execute_def guard_iff execute_try_def spawnSync_python
  using nonblank_example
  by (simp add: sv_overflow_def overflow_result_def enobufs_error_def js_eq_iff
        Date_now_def Let_def after_request_def nullish_def)

text \<open>
  Claim C8, amended. The cap of 1 MiB is handed to the supervisor, and \<open>execute\<close>
  does no cutting of its own. For every run in which the supervisor captured the two
  streams, also one whose captured output is longer than the cap, a result is
  returned and no exception leaves \<open>execute\<close>; its \<open>stdout\<close> and \<open>stderr\<close> are the
  captured strings as they are when the supervisor reports an error (as it does when
  the buffer overflows), and the captured strings without their trailing white space
  otherwise. The output is therefore never dropped and never longer than what the
  supervisor captured.
\<close>

theorem capped_output_returned:
  assumes "trim code \<noteq> []"
    and "sv (python_request code t) = (Inr r, d)"
    and "stdout r = Some so" and "stderr r = Some se"
  shows "maxBuffer (options (python_request code t)) = 1024 * 1024 \<and>
     (\<exists>out s1 s2.
        execute sv code t h = (Inr out, after_request h (python_request code t) (Inr r) d) \<and>
        map_of out ''stdout'' = Some (JString s1) \<and>
        map_of out ''stderr'' = Some (JString s2) \<and>
        s1 = (if error r = None then trimEnd so else so) \<and>
        s2 = (if error r = None then trimEnd se else se) \<and>
        length s1 \<le> length so \<and> length s2 \<le> length se)"
proof -
  have cap: "maxBuffer (options (python_request code t)) = 1024 * 1024"
    by (simp add: python_request_def)
  have shorter: "length (trimEnd so) \<le> length so" "length (trimEnd se) \<le> length se"
    by (rule length_trimEnd)+
  have "\<exists>out s1 s2.
        execute sv code t h = (Inr out, after_request h (python_request code t) (Inr r) d) \<and>
        map_of out ''stdout'' = Some (JString s1) \<and>
        map_of out ''stderr'' = Some (JString s2) \<and>
        s1 = (if error r = None then trimEnd so else so) \<and>
        s2 = (if error r = None then trimEnd se else se) \<and>
        length s1 \<le> length so \<and> length s2 \<le> length se"
    unfolding execute_def guard_iff execute_try_def spawnSync_python
    using assms shorter
    by (auto simp: Date_now_def Let_def after_request_def nullish_def split: option.splits)
  with cap show ?thesis by blast
qed

theorem capped_output_returned_witness:
  "trim (js ''print(42)'') \<noteq> [] \<and>
   stdout overflow_result = Some (replicate 1059776 0x0061) \<and>
   stderr overflow_result = Some [] \<and>
   (\<exists>out. fst (execute sv_overflow (js ''print(42)'') 10 host0) = Inr out \<and>
      map_of out ''stdout'' = Some (JString (replicate 1059776 0x0061)) \<and>
      map_of out ''stderr'' = Some (JString []))"
proof -
  have r: "stdout overflow_result = Some (replicate 1059776 0x0061)"
    "stderr overflow_result = Some []"
    by (simp_all add: overflow_result_def)
  have sv: "sv_overflow (python_request (js ''print(42)'') 10) = (Inr overflow_result, 120)"
    by (simp add: sv_overflow_def)
  have err: "error overflow_result \<noteq> None"
    by (simp add: overflow_result_def)
  from capped_output_returned
         [where sv = sv_overflow and r = overflow_result and h = host0,
          OF nonblank_example sv r]
  obtain out s1 s2 where
    ex: "execute sv_overflow (js ''print(42)'') 10 host0 =
       (Inr out, after_request host0 (python_request (js ''print(42)'') 10) (Inr overflow_result) 120)"
    and s: "map_of out ''stdout'' = Some (JString s1)" "map_of out ''stderr'' = Some (JString s2)"
    and v: "s1 = (if error overflow_result = None
                  then trimEnd (replicate 1059776 0x0061) else replicate 1059776 0x0061)"
      "s2 = (if error overflow_result = None then trimEnd [] else [])"
    by blast
  from v err have "s1 = replicate 1059776 0x0061" "s2 = []" by simp_all
  with ex s have "\<exists>out. fst (execute sv_overflow (js ''print(42)'') 10 host0) = Inr out \<and>
      map_of out ''stdout'' = Some (JString (replicate 1059776 0x0061)) \<and>
      map_of out ''stderr'' = Some (JString [])"
    by simp
  with nonblank_example r show ?thesis by simp
qed

text \<open>
  Claim C10. When the \<open>try\<close> block ends with an exception, the outcome is the
  failure \<open>Unexpected error during code execution\<close> with \<open>stdout\<close> and \<open>stderr\<close>
  empty and \<open>exit_code = -1\<close>, whatever the child may have written.
\<close>

theorem unexpected_error_outcome:
  assumes "trim code \<noteq> []"
    and "execute_try sv code t (Date_now h) h = (Inl exn, h')"
  shows "execute sv code t h =
     (Inr [(''success'', JBool False),
           (''error'', JString (js ''Unexpected error during code execution'')),
           (''details'',
              (case exn of
                 ThrownError e \<Rightarrow>
                   (case err_message e of Some m \<Rightarrow> JString m | None \<Rightarrow> JUndefined)
               | ThrownValue s \<Rightarrow> JString s)),
           (''stdout'', JString []),
           (''stderr'', JString []),
           (''exit_code'', JNumber (- 1)),
           (''execution_time_ms'', JNumber (now h' - now h))],
      h')"
  unfolding execute_def guard_iff
  using assms by (simp add: Date_now_def Let_def)

theorem unexpected_error_outcome_witness:
  "trim (js ''print(42)'') \<noteq> [] \<and>
   execute_try sv_throws (js ''print(42)'') 10 (Date_now host0) host0 =
     (Inl (ThrownError invalid_arg_error),
      after_request host0 (python_request (js ''print(42)'') 10)
        (Inl (ThrownError invalid_arg_error)) 0) \<and>
   fst (execute sv_throws (js ''print(42)'') 10 host0) =
     Inr [(''success'', JBool False),
          (''error'', JString (js ''Unexpected error during code execution'')),
          (''details'',
             JString (js ''The argument args[1] must be a string without null bytes'')),
          (''stdout'', JString []),
          (''stderr'', JString []),
          (''exit_code'', JNumber (- 1)),
          (''execution_time_ms'', JNumber 0)]"
proof -
  have sv: "sv_throws (python_request (js ''print(42)'') 10) = (Inl (ThrownError invalid_arg_error), 0)"
    by (simp add: sv_throws_def)
  note thrown = execute_try_throws [where sv = sv_throws and s = "Date_now host0" and h = host0, OF sv]
  from unexpected_error_outcome [OF nonblank_example thrown] nonblank_example thrown
  show ?thesis
    by (simp add: invalid_arg_error_def after_request_def)
qed

end
